theory Spec2Isabelle
  imports Main
begin

section \<open>Requests, the response sink and what a handler does\<close>

text \<open>
  The program is \<^verbatim>\<open>index.js\<close>: it defines the function \<^verbatim>\<open>myMiddleware\<close>, creates an
  express application, registers two GET routes and listens on a port. A handler is a
  JavaScript function that the pipeline calls with \<^verbatim>\<open>(req, res, next)\<close>. The only things the
  handlers of this repository do are \<^verbatim>\<open>console.log(s)\<close>, \<^verbatim>\<open>res.send(s)\<close> and (in the README's
  listings) \<^verbatim>\<open>next()\<close>; a handler is therefore modelled by the list of the actions its body
  performs, in order, as a function of the request it is given.
\<close>

datatype verb = GET | HEAD | POST | PUT | DELETE | PATCH | OPTIONS

record request =
  rverb :: verb
  rpath :: string
  rquery :: string
  rheaders :: "(string \<times> string) list"
  rbody :: string

datatype action =
    Log string
  | Send string
  | Next
  | Throw string

type_synonym handler = "request \<Rightarrow> action list"

text \<open>
  Where a handler ran: the position of a unit in the effective sequence of a request.
\<close>

datatype slot = Global nat | Specific nat | Terminal

text \<open>
  The state of one request: the lines written to standard output, the write-once response
  sink (status and body; \<open>None\<close> while nothing has been sent, which at the end of a dispatch
  is a request left hanging), and the units invoked so far.
\<close>

record pstate =
  console :: "string list"
  response :: "(nat \<times> string) option"
  invoked :: "slot list"

definition initial :: pstate where
  "initial = \<lparr>console = [], response = None, invoked = []\<rparr>"

section \<open>The program: index.js\<close>

text \<open>
  What a JavaScript call can be given and what it returns. \<^verbatim>\<open>myMiddleware\<close> is a named
  constant of the module, so it can be called with any arguments; its result is either
  \<^verbatim>\<open>undefined\<close> or a function usable as a handler.
\<close>

datatype jsval = JUndefined | JString string | JRequest request | JResponse | JNext

datatype retval = Undefined | Handler handler

text \<open>
  \<^verbatim>\<open>const myMiddleware = (req, res) => { console.log("Hello, from my middleware") }\<close>
\<close>

definition myMiddleware_params :: "string list" where
  "myMiddleware_params = [''req'', ''res'']"

definition myMiddleware :: "jsval list \<Rightarrow> action list \<times> retval" where
  "myMiddleware args = ([Log ''Hello, from my middleware''], Undefined)"

text \<open>
  The pipeline calls a registered function with the request, the response sink and the
  continuation; what the function returns is ignored.
\<close>

definition as_handler :: "(jsval list \<Rightarrow> action list \<times> retval) \<Rightarrow> handler" where
  "as_handler f req = fst (f [JRequest req, JResponse, JNext])"

text \<open>
  \<^verbatim>\<open>(req, res) => { res.send("Hi") }\<close> and \<^verbatim>\<open>(req, res) => { res.send("Bye") }\<close>, the two
  anonymous functions given to \<^verbatim>\<open>app.get\<close>.
\<close>

definition hi_handler :: handler where
  "hi_handler req = [Send ''Hi'']"

definition bye_handler :: handler where
  "bye_handler req = [Send ''Bye'']"

record route =
  rt_verb :: verb
  rt_path :: string
  rt_units :: "handler list"
  rt_terminal :: handler

record application =
  globals :: "handler list"
  routes :: "route list"

text \<open>
  Modelled from the spec: the express library (\<^verbatim>\<open>express()\<close>, \<^verbatim>\<open>app.use\<close>, \<^verbatim>\<open>app.get\<close>,
  \<^verbatim>\<open>res.send\<close> and the dispatch of a request), which index.js imports and which is not part
  of the sources. Section 4.1: registering a global unit appends it to the application-wide
  list; registering a route binds a path and a method to an ordered list of zero or more
  units plus one terminal handler.
\<close>

definition express :: application where
  "express = \<lparr>globals = [], routes = []\<rparr>"

definition app_use :: "handler \<Rightarrow> application \<Rightarrow> application" where
  "app_use h a = a\<lparr>globals := globals a @ [h]\<rparr>"

definition app_get :: "string \<Rightarrow> handler list \<Rightarrow> handler \<Rightarrow> application \<Rightarrow> application" where
  "app_get p us t a =
     a\<lparr>routes := routes a @ [\<lparr>rt_verb = GET, rt_path = p, rt_units = us, rt_terminal = t\<rparr>]\<rparr>"

text \<open>
  Lines 8 to 16 of index.js, statement by statement: \<^verbatim>\<open>const app = express()\<close>, then
  \<^verbatim>\<open>app.get("/hi", ...)\<close>, then \<^verbatim>\<open>app.get("/bye", ...)\<close>. Neither \<^verbatim>\<open>morgan\<close> nor
  \<^verbatim>\<open>myMiddleware\<close> occurs in them.
\<close>

definition app :: application where
  "app = app_get ''/bye'' [] bye_handler (app_get ''/hi'' [] hi_handler express)"

text \<open>
  Lines 18 to 20: \<^verbatim>\<open>app.listen(3000, () => { console.log("Listening on port 3000") })\<close>.
\<close>

record listening =
  port :: nat
  on_listening :: "action list"
  serving :: application

definition app_listen :: "nat \<Rightarrow> action list \<Rightarrow> application \<Rightarrow> listening" where
  "app_listen p cb a = \<lparr>port = p, on_listening = cb, serving = a\<rparr>"

text \<open>
  The module as a program: it is started with command-line arguments and an environment,
  and reads neither (index.js mentions neither \<^verbatim>\<open>process.argv\<close> nor \<^verbatim>\<open>process.env\<close>).
\<close>

definition main :: "string list \<Rightarrow> (string \<times> string) list \<Rightarrow> listening" where
  "main argv env = app_listen 3000 [Log ''Listening on port 3000''] app"

section \<open>The request pipeline\<close>

text \<open>
  Modelled from the spec: the dispatch of the express library, which is not part of the
  sources. Section 4.1: the effective sequence of a request is the global units, then the
  units of the route bound to the request's method and path, then that route's terminal
  handler; they are invoked in order, each with the shared state of the request, the
  write-once response sink and a continuation that runs the rest of the sequence. When the
  sequence is exhausted and nothing has been sent, the default not-found response is
  emitted (the README shows it for \<^verbatim>\<open>/\<close>: \<^verbatim>\<open>Cannot GET /\<close>, with status 404). A unit that
  throws is caught and answered by the default internal-error response, and the error is
  logged. \<^verbatim>\<open>res.send\<close> answers with status 200; a second write to the sink is an error.
\<close>

fun verb_name :: "verb \<Rightarrow> string" where
  "verb_name GET = ''GET''"
| "verb_name HEAD = ''HEAD''"
| "verb_name POST = ''POST''"
| "verb_name PUT = ''PUT''"
| "verb_name DELETE = ''DELETE''"
| "verb_name PATCH = ''PATCH''"
| "verb_name OPTIONS = ''OPTIONS''"

definition not_found :: "request \<Rightarrow> pstate \<Rightarrow> pstate" where
  "not_found req st =
     (case response st of
        None \<Rightarrow> st\<lparr>response := Some (404, ''Cannot '' @ verb_name (rverb req) @ '' '' @ rpath req)\<rparr>
      | Some r \<Rightarrow> st)"

definition internal_error :: "string \<Rightarrow> pstate \<Rightarrow> pstate" where
  "internal_error e st =
     (case response st of
        None \<Rightarrow> st\<lparr>console := console st @ [e], response := Some (500, ''Internal Server Error'')\<rparr>
      | Some r \<Rightarrow> st\<lparr>console := console st @ [e]\<rparr>)"

fun run :: "(slot \<times> handler) list \<Rightarrow> request \<Rightarrow> pstate \<Rightarrow> pstate"
and exec :: "action list \<Rightarrow> (slot \<times> handler) list \<Rightarrow> request \<Rightarrow> pstate \<Rightarrow> pstate"
where
  "run [] req st = not_found req st"
| "run ((l, h) # rest) req st = exec (h req) rest req (st\<lparr>invoked := invoked st @ [l]\<rparr>)"
| "exec [] rest req st = st"
| "exec (Log s # as) rest req st = exec as rest req (st\<lparr>console := console st @ [s]\<rparr>)"
| "exec (Send b # as) rest req st =
     (case response st of
        None \<Rightarrow> exec as rest req (st\<lparr>response := Some (200, b)\<rparr>)
      | Some r \<Rightarrow> internal_error ''Cannot set headers after they are sent to the client'' st)"
| "exec (Next # as) rest req st = exec as rest req (run rest req st)"
| "exec (Throw e # as) rest req st = internal_error e st"

definition labelled :: "(nat \<Rightarrow> slot) \<Rightarrow> handler list \<Rightarrow> (slot \<times> handler) list" where
  "labelled f hs = zip (map f [0..<length hs]) hs"

definition find_route :: "application \<Rightarrow> request \<Rightarrow> route option" where
  "find_route a req = find (\<lambda>r. rt_verb r = rverb req \<and> rt_path r = rpath req) (routes a)"

definition route_sequence :: "application \<Rightarrow> request \<Rightarrow> (slot \<times> handler) list" where
  "route_sequence a req =
     (case find_route a req of
        None \<Rightarrow> []
      | Some r \<Rightarrow> labelled Specific (rt_units r) @ [(Terminal, rt_terminal r)])"

definition effective_sequence :: "application \<Rightarrow> request \<Rightarrow> (slot \<times> handler) list" where
  "effective_sequence a req = labelled Global (globals a) @ route_sequence a req"

definition dispatch :: "application \<Rightarrow> request \<Rightarrow> pstate" where
  "dispatch a req = run (effective_sequence a req) req initial"

section \<open>The README's listings of the middleware\<close>

text \<open>
  The README (section "Custom Middleware": "If you look at lines 5-7, we have custom
  middleware defined") lists the function of index.js as
  \<^verbatim>\<open>const myMiddleware = (req, res, next) => { console.log("Hello, from my middleware"); next(); }\<close>
  which differs from index.js by the parameter \<^verbatim>\<open>next\<close> and the call \<^verbatim>\<open>next()\<close>.
\<close>

definition readme_myMiddleware :: handler where
  "readme_myMiddleware req = [Log ''Hello, from my middleware'', Next]"

text \<open>
  The README's last exercise asks the reader to rewrite the function as
  \<^verbatim>\<open>const myMiddleware = (name = "World") => (req, res, next) => { ...; next(); }\<close>
  where the elided statement logs the template string made of "Hello, " and the name
  (\<open>None\<close>: called with no argument). It is not what index.js contains.
\<close>

definition readme_customizable :: "string option \<Rightarrow> handler" where
  "readme_customizable name req =
     [Log (''Hello, '' @ (case name of None \<Rightarrow> ''World'' | Some n \<Rightarrow> n)), Next]"

section \<open>The notions the specification uses\<close>

fun is_log :: "action \<Rightarrow> bool" where
  "is_log (Log s) = True"
| "is_log a = False"

fun is_send :: "action \<Rightarrow> bool" where
  "is_send (Send b) = True"
| "is_send a = False"

fun log_text :: "action \<Rightarrow> string" where
  "log_text (Log s) = s"
| "log_text a = []"

text \<open>
  A unit passes control when, apart from logging, all it does is invoke its continuation
  once.
\<close>

definition passes :: "action list \<Rightarrow> bool" where
  "passes as = (filter (\<lambda>a. \<not> is_log a) as = [Next])"

text \<open>
  The invariant of section 3 of the specification: a unit either terminates the request
  (writes a response, and does not invoke the continuation) or invokes the continuation
  exactly once.
\<close>

definition well_behaved :: "action list \<Rightarrow> bool" where
  "well_behaved as =
     (if list_ex is_send as then count_list as Next = 0 else count_list as Next = 1)"

text \<open>A line contains a text when the text occurs in it as a block.\<close>

primrec contains :: "string \<Rightarrow> string \<Rightarrow> bool" where
  "contains s [] = (s = [])"
| "contains s (c # cs) = (take (length s) (c # cs) = s \<or> contains s cs)"

text \<open>
  What the specification says of the result of a handler factory called for a name: it is
  a handler unit, and that unit logs a line containing the greeting of the name.
\<close>

definition greets :: "retval \<Rightarrow> string \<Rightarrow> request \<Rightarrow> bool" where
  "greets r name req =
     (case r of
        Undefined \<Rightarrow> False
      | Handler h \<Rightarrow> list_ex (\<lambda>a. is_log a \<and> contains (''Hello, '' @ name) (log_text a)) (h req))"

section \<open>Sample requests\<close>

definition get_hi :: request where
  "get_hi = \<lparr>rverb = GET, rpath = ''/hi'', rquery = [], rheaders = [], rbody = []\<rparr>"

definition get_bye :: request where
  "get_bye = \<lparr>rverb = GET, rpath = ''/bye'', rquery = [], rheaders = [], rbody = []\<rparr>"

definition get_nope :: request where
  "get_nope = \<lparr>rverb = GET, rpath = ''/nope'', rquery = [], rheaders = [], rbody = []\<rparr>"

definition get_hi_loaded :: request where
  "get_hi_loaded =
     \<lparr>rverb = GET, rpath = ''/hi'', rquery = ''name=Universe'',
      rheaders = [(''authorization'', ''Bearer secret'')], rbody = ''payload''\<rparr>"





text \<open>A unit that logs and then throws, before it sends anything or passes control.\<close>

definition throwing_unit :: handler where
  "throwing_unit req = [Log ''before'', Throw ''boom'', Send ''never'']"

section \<open>Facts about the program\<close>

lemma routes_app:
  "routes app =
     [\<lparr>rt_verb = GET, rt_path = ''/hi'', rt_units = [], rt_terminal = hi_handler\<rparr>,
      \<lparr>rt_verb = GET, rt_path = ''/bye'', rt_units = [], rt_terminal = bye_handler\<rparr>]"
  by (simp add: app_def app_get_def express_def)

lemma globals_app: "globals app = []"
  by (simp add: app_def app_get_def express_def)

lemmas dispatch_simps =
  dispatch_def effective_sequence_def route_sequence_def find_route_def labelled_def
  initial_def not_found_def

lemma dispatch_hi:
  "dispatch app (req\<lparr>rverb := GET, rpath := ''/hi''\<rparr>) =
     \<lparr>console = [], response = Some (200, ''Hi''), invoked = [Terminal]\<rparr>"
  by (simp add: dispatch_simps routes_app globals_app hi_handler_def)

lemma dispatch_bye:
  "dispatch app (req\<lparr>rverb := GET, rpath := ''/bye''\<rparr>) =
     \<lparr>console = [], response = Some (200, ''Bye''), invoked = [Terminal]\<rparr>"
  by (simp add: dispatch_simps routes_app globals_app bye_handler_def)

lemma dispatch_other:
  "rpath req \<notin> {''/hi'', ''/bye''} \<Longrightarrow>
   dispatch app req =
     \<lparr>console = [],
      response = Some (404, ''Cannot '' @ verb_name (rverb req) @ '' '' @ rpath req),
      invoked = []\<rparr>"
  by (auto simp add: dispatch_simps routes_app globals_app)

text \<open>
  Every request with a given method and path is the update of itself by that method and
  path, so a statement about \<open>req\<lparr>rverb := v, rpath := p\<rparr>\<close> for every \<open>req\<close> is one
  about every request with method \<open>v\<close> and path \<open>p\<close>.
\<close>

lemma request_surjective:
  "rverb req = v \<Longrightarrow> rpath req = p \<Longrightarrow> req\<lparr>rverb := v, rpath := p\<rparr> = req"
  by simp

lemma terminal_handlers_not_myMiddleware:
  "hi_handler \<noteq> as_handler myMiddleware" "bye_handler \<noteq> as_handler myMiddleware"
proof -
  show "hi_handler \<noteq> as_handler myMiddleware"
  proof
    assume "hi_handler = as_handler myMiddleware"
    then have "hi_handler get_hi = as_handler myMiddleware get_hi"
      by simp
    then show False
      by (simp add: hi_handler_def as_handler_def myMiddleware_def)
  qed
  show "bye_handler \<noteq> as_handler myMiddleware"
  proof
    assume "bye_handler = as_handler myMiddleware"
    then have "bye_handler get_hi = as_handler myMiddleware get_hi"
      by simp
    then show False
      by (simp add: bye_handler_def as_handler_def myMiddleware_def)
  qed
qed

lemma effective_sequence_use:
  "effective_sequence (app_use h app) req = (Global 0, h) # route_sequence app req"
  by (simp add: effective_sequence_def app_use_def globals_app labelled_def route_sequence_def find_route_def)


text \<open>
  \<^verbatim>\<open>myMiddleware\<close> on its own: given any request it neither writes a response nor invokes
  a continuation, so an application that registered it with \<^verbatim>\<open>app.use\<close>, which index.js
  does not, would leave every request without a response; the README's listing of the
  function, which calls \<^verbatim>\<open>next()\<close>, would not.
\<close>

lemma myMiddleware_hangs:
  "\<not> well_behaved (as_handler myMiddleware req)
   \<and> count_list (as_handler myMiddleware req) Next = 0
   \<and> \<not> list_ex is_send (as_handler myMiddleware req)
   \<and> dispatch (app_use (as_handler myMiddleware) app) req
       = \<lparr>console = [''Hello, from my middleware''], response = None, invoked = [Global 0]\<rparr>
   \<and> well_behaved (readme_myMiddleware req)
   \<and> dispatch (app_use readme_myMiddleware app) (req\<lparr>rverb := GET, rpath := ''/hi''\<rparr>)
       = \<lparr>console = [''Hello, from my middleware''], response = Some (200, ''Hi''),
          invoked = [Global 0, Terminal]\<rparr>
   \<and> well_behaved (hi_handler req)
   \<and> well_behaved (bye_handler req)"
  by (simp add: well_behaved_def as_handler_def myMiddleware_def readme_myMiddleware_def
      hi_handler_def bye_handler_def dispatch_def effective_sequence_use initial_def
      route_sequence_def find_route_def routes_app labelled_def)

section \<open>Facts about the pipeline\<close>

lemma exec_logs:
  "list_all is_log as \<Longrightarrow> exec as rest req st = st\<lparr>console := console st @ map log_text as\<rparr>"
proof (induction as arbitrary: st)
  case Nil
  then show ?case by simp
next
  case (Cons a as)
  then show ?case by (cases a) simp_all
qed




lemma passes_Cons:
  "passes (a # as) \<longleftrightarrow> (is_log a \<and> passes as) \<or> (a = Next \<and> list_all is_log as)"
  by (cases a) (auto simp add: passes_def filter_empty_conv list_all_iff)











lemma exec_throw:
  "list_all is_log logs \<Longrightarrow> response st = None \<Longrightarrow>
   exec (logs @ Throw e # after) rest req st
     = st\<lparr>console := console st @ map log_text logs @ [e],
          response := Some (500, ''Internal Server Error'')\<rparr>"
proof (induction logs arbitrary: st)
  case Nil
  then show ?case by (simp add: internal_error_def)
next
  case (Cons a logs)
  then show ?case by (cases a) simp_all
qed

lemma exec_passes_error:
  assumes rest: "\<And>st. response st = None \<Longrightarrow>
      response (run rest req st) = Some r \<and> e \<in> set (console (run rest req st))"
  shows "passes as \<Longrightarrow> response st = None \<Longrightarrow>
      response (exec as rest req st) = Some r \<and> e \<in> set (console (exec as rest req st))"
proof (induction as arbitrary: st)
  case Nil
  then show ?case by (simp add: passes_def)
next
  case (Cons a as)
  from Cons.prems(1) consider (log) "is_log a" "passes as" | (nxt) "a = Next" "list_all is_log as"
    unfolding passes_Cons by blast
  then show ?case
  proof cases
    case log
    then obtain s where "a = Log s" by (cases a) simp_all
    then show ?thesis using Cons.IH [OF log(2)] Cons.prems(2) by simp
  next
    case nxt
    then show ?thesis using rest [OF Cons.prems(2)] by (simp add: exec_logs)
  qed
qed

lemma run_error:
  assumes "list_all is_log logs" and "h req = logs @ Throw e # after"
  shows "list_all (\<lambda>(l', h'). passes (h' req)) pre \<Longrightarrow> response st = None \<Longrightarrow>
     response (run (pre @ (l, h) # post) req st) = Some (500, ''Internal Server Error'')
     \<and> e \<in> set (console (run (pre @ (l, h) # post) req st))"
proof (induction pre arbitrary: st)
  case Nil
  then show ?case using assms by (simp add: exec_throw)
next
  case (Cons x pre)
  obtain l' h' where x: "x = (l', h')" by (cases x)
  from Cons.prems have p: "passes (h' req)" and r: "list_all (\<lambda>(l', h'). passes (h' req)) pre"
    by (simp_all add: x)
  have "\<And>st. response st = None \<Longrightarrow>
      response (run (pre @ (l, h) # post) req st) = Some (500, ''Internal Server Error'')
      \<and> e \<in> set (console (run (pre @ (l, h) # post) req st))"
    using Cons.IH [OF r] .
  from exec_passes_error [OF this p] Cons.prems(2) show ?case
    by (simp add: x)
qed








lemma throwing_sequence:
  "effective_sequence (app_use throwing_unit (app_use readme_myMiddleware app)) get_hi
     = [(Global 0, readme_myMiddleware)] @ (Global 1, throwing_unit) # [(Terminal, hi_handler)]"
  by (simp add: effective_sequence_def route_sequence_def find_route_def labelled_def
      app_use_def routes_app globals_app get_hi_def)

lemma readme_customizable_greets:
  "greets (Handler (readme_customizable None)) ''World'' req
   \<and> greets (Handler (readme_customizable (Some ''Universe''))) ''Universe'' req"
  by (simp add: greets_def readme_customizable_def)

section \<open>The claims\<close>

text \<open>
  C1. Every registered route answers a request to it with its literal body and status 200:
  the registered routes are GET /hi and GET /bye; every GET request to /hi is answered with
  status 200 and body "Hi", and every GET request to /bye with status 200 and body "Bye".
\<close>

theorem registered_routes_respond:
  "map (\<lambda>r. (rt_verb r, rt_path r)) (routes app) = [(GET, ''/hi''), (GET, ''/bye'')]
   \<and> response (dispatch app (req\<lparr>rverb := GET, rpath := ''/hi''\<rparr>)) = Some (200, ''Hi'')
   \<and> response (dispatch app (req\<lparr>rverb := GET, rpath := ''/bye''\<rparr>)) = Some (200, ''Bye'')"
  by (simp add: routes_app dispatch_hi dispatch_bye)

text \<open>
  C2, as the specification states it, fails: called with no argument, \<^verbatim>\<open>myMiddleware\<close>
  returns undefined, not a handler unit, and the line it logs does not contain
  "Hello, World"; called with "Universe" it does the same, and the line does not contain
  "Hello, Universe".
\<close>

theorem factory_default_counterexample:
  "myMiddleware [] = ([Log ''Hello, from my middleware''], Undefined)
   \<and> \<not> greets (snd (myMiddleware [])) ''World'' get_bye
   \<and> \<not> contains ''Hello, World'' ''Hello, from my middleware''
   \<and> myMiddleware [JString ''Universe''] = ([Log ''Hello, from my middleware''], Undefined)
   \<and> \<not> greets (snd (myMiddleware [JString ''Universe''])) ''Universe'' get_hi
   \<and> \<not> contains ''Hello, Universe'' ''Hello, from my middleware''"
  by (simp add: myMiddleware_def greets_def)

text \<open>
  C2, amended. \<^verbatim>\<open>myMiddleware\<close> is not a handler factory: called with no argument or with
  an explicit argument such as "Universe", it logs the fixed line "Hello, from my
  middleware" and returns undefined, so its result never is a unit that greets a name,
  the default name included. It is bound to no route: a GET request to /bye is answered
  with status 200 and body "Bye", only the terminal handler runs, and nothing is logged.
\<close>

theorem myMiddleware_not_factory:
  "myMiddleware [] = ([Log ''Hello, from my middleware''], Undefined)
   \<and> myMiddleware [JString name] = ([Log ''Hello, from my middleware''], Undefined)
   \<and> \<not> greets (snd (myMiddleware args)) name req
   \<and> as_handler myMiddleware
       \<notin> set (globals app @ concat (map (\<lambda>r. rt_units r @ [rt_terminal r]) (routes app)))
   \<and> dispatch app (req\<lparr>rverb := GET, rpath := ''/bye''\<rparr>)
       = \<lparr>console = [], response = Some (200, ''Bye''), invoked = [Terminal]\<rparr>"
proof -
  have unbound: "as_handler myMiddleware
      \<notin> set (globals app @ concat (map (\<lambda>r. rt_units r @ [rt_terminal r]) (routes app)))"
    using terminal_handlers_not_myMiddleware by (auto simp add: routes_app globals_app)
  then show ?thesis
    by (simp add: myMiddleware_def greets_def dispatch_bye)
qed

text \<open>
  C3. Every handler unit of the program keeps the invariant for every request it
  processes: each unit of the effective sequence of a request writes a response and does
  not invoke its continuation (none invokes it twice, none does neither), the units are
  the two terminal handlers, both of which send and never call the continuation, and no
  dispatch ends without a response. \<^verbatim>\<open>myMiddleware\<close> is in no effective sequence: it
  processes no request.
\<close>

theorem units_of_app_well_behaved:
  "list_all (\<lambda>(l, h). well_behaved (h req)) (effective_sequence app req)
   \<and> as_handler myMiddleware \<notin> set (map snd (effective_sequence app req))
   \<and> response (dispatch app req) \<noteq> None
   \<and> map snd (effective_sequence app (req\<lparr>rverb := GET, rpath := ''/hi''\<rparr>)) = [hi_handler]
   \<and> map snd (effective_sequence app (req\<lparr>rverb := GET, rpath := ''/bye''\<rparr>)) = [bye_handler]
   \<and> list_ex is_send (hi_handler req) \<and> count_list (hi_handler req) Next = 0
   \<and> list_ex is_send (bye_handler req) \<and> count_list (bye_handler req) Next = 0
   \<and> well_behaved (hi_handler req) \<and> well_behaved (bye_handler req)"
proof -
  have hi: "hi_handler \<noteq> as_handler myMiddleware"
  proof
    assume "hi_handler = as_handler myMiddleware"
    then have "hi_handler req = as_handler myMiddleware req"
      by simp
    then show False
      by (simp add: hi_handler_def as_handler_def myMiddleware_def)
  qed
  have bye: "bye_handler \<noteq> as_handler myMiddleware"
  proof
    assume "bye_handler = as_handler myMiddleware"
    then have "bye_handler req = as_handler myMiddleware req"
      by simp
    then show False
      by (simp add: bye_handler_def as_handler_def myMiddleware_def)
  qed
  have seq: "effective_sequence app req
      = (case find_route app req of None \<Rightarrow> [] | Some r \<Rightarrow> [(Terminal, rt_terminal r)])"
    by (simp add: effective_sequence_def route_sequence_def find_route_def labelled_def
        routes_app globals_app)
  have units: "list_all (\<lambda>(l, h). well_behaved (h req)) (effective_sequence app req)"
    by (simp add: seq find_route_def routes_app well_behaved_def hi_handler_def bye_handler_def)
  have absent: "as_handler myMiddleware \<notin> set (map snd (effective_sequence app req))"
    using hi bye by (auto simp add: seq find_route_def routes_app)
  have answered: "response (dispatch app req) \<noteq> None"
    by (simp add: dispatch_simps routes_app globals_app hi_handler_def bye_handler_def)
  have at_hi: "map snd (effective_sequence app (req\<lparr>rverb := GET, rpath := ''/hi''\<rparr>)) = [hi_handler]"
    by (simp add: effective_sequence_def route_sequence_def find_route_def labelled_def
        routes_app globals_app)
  have at_bye: "map snd (effective_sequence app (req\<lparr>rverb := GET, rpath := ''/bye''\<rparr>)) = [bye_handler]"
    by (simp add: effective_sequence_def route_sequence_def find_route_def labelled_def
        routes_app globals_app)
  from units absent answered at_hi at_bye show ?thesis
    by (simp add: well_behaved_def hi_handler_def bye_handler_def)
qed




text \<open>
  C5. A request to any path other than /hi and /bye is answered with status 404: no unit
  runs for it, its effective sequence is empty, and the response is the default not-found
  response that the pipeline emits when the sequence is exhausted with nothing sent.
\<close>

theorem unregistered_path_not_found:
  assumes "rpath req \<notin> {''/hi'', ''/bye''}"
  shows "effective_sequence app req = []
    \<and> dispatch app req = not_found req initial
    \<and> response (dispatch app req)
        = Some (404, ''Cannot '' @ verb_name (rverb req) @ '' '' @ rpath req)
    \<and> invoked (dispatch app req) = []"
proof -
  have empty: "effective_sequence app req = []"
    using assms
    by (auto simp add: effective_sequence_def route_sequence_def find_route_def labelled_def
        routes_app globals_app)
  have exhausted: "dispatch app req = not_found req initial"
    by (simp add: dispatch_def empty)
  have answer: "response (dispatch app req)
      = Some (404, ''Cannot '' @ verb_name (rverb req) @ '' '' @ rpath req)"
    by (simp only: dispatch_other [OF assms] pstate.simps)
  have nothing_ran: "invoked (dispatch app req) = []"
    by (simp only: dispatch_other [OF assms] pstate.simps)
  from empty exhausted answer nothing_ran show ?thesis
    by blast
qed

theorem unregistered_path_not_found_witness:
  "rpath get_nope \<notin> {''/hi'', ''/bye''}
   \<and> response (dispatch app get_nope) = Some (404, ''Cannot GET /nope'')
   \<and> invoked (dispatch app get_nope) = []"
proof -
  have h: "rpath get_nope \<notin> {''/hi'', ''/bye''}"
    by (simp add: get_nope_def)
  have name: "''Cannot '' @ verb_name (rverb get_nope) @ '' '' @ rpath get_nope = ''Cannot GET /nope''"
    by (simp add: get_nope_def)
  from unregistered_path_not_found [OF h] h show ?thesis
    unfolding name by blast
qed

text \<open>
  C6. When a unit of the effective sequence throws before it has written a response or
  invoked its continuation, and the units before it have passed control, the pipeline
  answers with the default internal-error response, status 500, and the error is logged;
  the request is not left without a response.
\<close>

theorem throwing_unit_answered_500:
  assumes "effective_sequence a req = pre @ (l, h) # post"
    and "list_all (\<lambda>(l', h'). passes (h' req)) pre"
    and "h req = logs @ Throw e # after"
    and "list_all is_log logs"
  shows "response (dispatch a req) = Some (500, ''Internal Server Error'')
    \<and> e \<in> set (console (dispatch a req))
    \<and> response (dispatch a req) \<noteq> None"
  using run_error [where h = h and req = req and st = initial and l = l and post = post,
      OF assms(4) assms(3) assms(2)]
  by (simp add: dispatch_def assms(1) initial_def)

theorem throwing_unit_answered_500_witness:
  "list_all (\<lambda>(l', h'). passes (h' get_hi)) [(Global 0, readme_myMiddleware)]
   \<and> throwing_unit get_hi = [Log ''before''] @ Throw ''boom'' # [Send ''never'']
   \<and> list_all is_log [Log ''before'']
   \<and> response (dispatch (app_use throwing_unit (app_use readme_myMiddleware app)) get_hi)
       = Some (500, ''Internal Server Error'')
   \<and> ''boom'' \<in> set (console (dispatch (app_use throwing_unit (app_use readme_myMiddleware app)) get_hi))"
proof -
  have p: "list_all (\<lambda>(l', h'). passes (h' get_hi)) [(Global 0, readme_myMiddleware)]"
    by (simp add: passes_def readme_myMiddleware_def)
  have t: "throwing_unit get_hi = [Log ''before''] @ Throw ''boom'' # [Send ''never'']"
    by (simp add: throwing_unit_def)
  have g: "list_all is_log [Log ''before'']"
    by simp
  from throwing_unit_answered_500 [OF throwing_sequence p t g] p t g show ?thesis
    by blast
qed

text \<open>
  The module listens on port 3000 whatever its arguments and environment are, serving the
  application above; its callback logs one line.
\<close>

lemma main_listens:
  "port (main argv env) = 3000
   \<and> serving (main argv env) = app
   \<and> on_listening (main argv env) = [Log ''Listening on port 3000'']
   \<and> main argv env = main [] []"
  by (simp add: main_def app_listen_def)

text \<open>
  C8. \<^verbatim>\<open>myMiddleware\<close> is a plain handler and not a factory: its parameters are exactly
  \<^verbatim>\<open>req\<close> and \<^verbatim>\<open>res\<close>, with no \<^verbatim>\<open>next\<close>; whatever it is called with, it logs the fixed line
  "Hello, from my middleware" and returns undefined; and run as a unit of a pipeline, in
  any state and before any remaining units, it only appends that line to the output: the
  response sink is left as it was and the remaining units are not run.
\<close>

theorem myMiddleware_plain_handler:
  "myMiddleware_params = [''req'', ''res'']
   \<and> length myMiddleware_params = 2
   \<and> ''next'' \<notin> set myMiddleware_params
   \<and> myMiddleware args = ([Log ''Hello, from my middleware''], Undefined)
   \<and> as_handler myMiddleware req = [Log ''Hello, from my middleware'']
   \<and> exec (as_handler myMiddleware req) rest req st
       = st\<lparr>console := console st @ [''Hello, from my middleware'']\<rparr>
   \<and> response (exec (as_handler myMiddleware req) rest req st) = response st
   \<and> invoked (exec (as_handler myMiddleware req) rest req st) = invoked st"
  by (simp add: myMiddleware_params_def myMiddleware_def as_handler_def)

text \<open>
  C9. No middleware is registered on the application: its list of global units is empty,
  both routes have no unit besides their terminal handler, the terminal handlers are the
  two anonymous functions and not \<^verbatim>\<open>myMiddleware\<close>, and so for every request the effective
  sequence is the terminal handler of the route it matches, or nothing, in which case the
  default not-found response is emitted. The units invoked are exactly that sequence.
\<close>

theorem no_middleware_registered:
  "globals app = []
   \<and> map rt_units (routes app) = [[], []]
   \<and> map rt_terminal (routes app) = [hi_handler, bye_handler]
   \<and> hi_handler \<noteq> as_handler myMiddleware
   \<and> bye_handler \<noteq> as_handler myMiddleware
   \<and> effective_sequence app req
       = (case find_route app req of None \<Rightarrow> [] | Some r \<Rightarrow> [(Terminal, rt_terminal r)])
   \<and> invoked (dispatch app req)
       = (case find_route app req of None \<Rightarrow> [] | Some r \<Rightarrow> [Terminal])
   \<and> dispatch app req
       = (case find_route app req of
            None \<Rightarrow> not_found req initial
          | Some r \<Rightarrow> exec (rt_terminal r req) [] req (initial\<lparr>invoked := [Terminal]\<rparr>))"
proof -
  have hi: "hi_handler \<noteq> as_handler myMiddleware"
  proof
    assume "hi_handler = as_handler myMiddleware"
    then have "hi_handler req = as_handler myMiddleware req"
      by simp
    then show False
      by (simp add: hi_handler_def as_handler_def myMiddleware_def)
  qed
  have bye: "bye_handler \<noteq> as_handler myMiddleware"
  proof
    assume "bye_handler = as_handler myMiddleware"
    then have "bye_handler req = as_handler myMiddleware req"
      by simp
    then show False
      by (simp add: bye_handler_def as_handler_def myMiddleware_def)
  qed
  have seq: "effective_sequence app req
      = (case find_route app req of None \<Rightarrow> [] | Some r \<Rightarrow> [(Terminal, rt_terminal r)])"
    by (simp add: effective_sequence_def route_sequence_def find_route_def labelled_def
        routes_app globals_app)
  have whole: "dispatch app req
      = (case find_route app req of
           None \<Rightarrow> not_found req initial
         | Some r \<Rightarrow> exec (rt_terminal r req) [] req (initial\<lparr>invoked := [Terminal]\<rparr>))"
    by (simp add: dispatch_def seq initial_def split: option.split)
  have ran: "invoked (dispatch app req)
      = (case find_route app req of None \<Rightarrow> [] | Some r \<Rightarrow> [Terminal])"
    by (simp add: dispatch_simps routes_app globals_app hi_handler_def bye_handler_def)
  from hi bye seq whole ran show ?thesis
    by (simp add: routes_app globals_app)
qed

text \<open>
  C10. The terminal handlers of /hi and /bye never read the request: two GET requests to
  the same one of these paths, whatever their headers, query and body, are answered alike
  (the whole outcome of the dispatch is the same, status and body included), and each of
  the two handlers does the same for every request.
\<close>

theorem terminal_response_constant:
  assumes "rverb r1 = GET" and "rverb r2 = GET"
    and "rpath r1 = rpath r2" and "rpath r1 \<in> {''/hi'', ''/bye''}"
  shows "dispatch app r1 = dispatch app r2
    \<and> response (dispatch app r1) = response (dispatch app r2)
    \<and> hi_handler r1 = hi_handler r2
    \<and> bye_handler r1 = bye_handler r2"
proof -
  have same: "dispatch app r1 = dispatch app r2"
  proof (cases "rpath r1 = ''/hi''")
    case True
    have "r1\<lparr>rverb := GET, rpath := ''/hi''\<rparr> = r1" and "r2\<lparr>rverb := GET, rpath := ''/hi''\<rparr> = r2"
      using assms True by simp_all
    then show ?thesis
      using dispatch_hi [of r1] dispatch_hi [of r2] by simp
  next
    case False
    then have p: "rpath r1 = ''/bye''"
      using assms(4) by simp
    have "r1\<lparr>rverb := GET, rpath := ''/bye''\<rparr> = r1" and "r2\<lparr>rverb := GET, rpath := ''/bye''\<rparr> = r2"
      using assms p by simp_all
    then show ?thesis
      using dispatch_bye [of r1] dispatch_bye [of r2] by simp
  qed
  then show ?thesis
    by (simp add: hi_handler_def bye_handler_def)
qed

theorem terminal_response_constant_witness:
  "get_hi \<noteq> get_hi_loaded
   \<and> dispatch app get_hi = dispatch app get_hi_loaded
   \<and> response (dispatch app get_hi) = Some (200, ''Hi'')"
proof -
  have v1: "rverb get_hi = GET" and v2: "rverb get_hi_loaded = GET"
    and p: "rpath get_hi = rpath get_hi_loaded"
    and r: "rpath get_hi \<in> {''/hi'', ''/bye''}"
    by (simp_all add: get_hi_def get_hi_loaded_def)
  have differ: "get_hi \<noteq> get_hi_loaded"
    by (simp add: get_hi_def get_hi_loaded_def)
  have answered: "response (dispatch app get_hi) = Some (200, ''Hi'')"
    using dispatch_hi [of get_hi] by (simp add: get_hi_def)
  from terminal_response_constant [OF v1 v2 p r] differ answered show ?thesis
    by blast
qed

end
